theory Spec2Isabelle
  imports Main "HOL-Library.Sublist"
begin

section \<open>Python values and library functions used by \<^verbatim>\<open>src/__main__.py\<close>\<close>

text \<open>
  The command-line values that reach the path functions are strings (data set and metric
  names, glob patterns), integers (the \<^verbatim>\<open>click\<close> options of type int) and
  \<^verbatim>\<open>None\<close> (an option that was not given).
\<close>

datatype pyval = PyNone | PyStr string | PyInt int

datatype error =
    NotImplementedError
  | IndexError
  | KeyError string
  | TypeError
  | AttributeError
  | External string

text \<open>
  A raised exception is the left summand of the result; \<open>and_then\<close> runs the next
  statement on the value of the previous one and passes an exception on.
\<close>

definition and_then :: "error + 'a \<Rightarrow> ('a \<Rightarrow> error + 'b) \<Rightarrow> error + 'b" where
  "and_then r f = (case r of Inl e \<Rightarrow> Inl e | Inr x \<Rightarrow> f x)"

text \<open>Python's \<^verbatim>\<open>str\<close> on a non-negative and on any integer: decimal digits.\<close>

definition digit_char :: "nat \<Rightarrow> char" where
  "digit_char d = ''0123456789'' ! d"

function str_nat :: "nat \<Rightarrow> string" where
  "str_nat n = (if n < 10 then [digit_char n] else str_nat (n div 10) @ [digit_char (n mod 10)])"
  by pat_completeness auto
termination
  by (relation "measure (\<lambda>n. n)") auto

declare str_nat.simps [simp del]

definition str_int :: "int \<Rightarrow> string" where
  "str_int i = (if i < 0 then CHR ''-'' # str_nat (nat (- i)) else str_nat (nat i))"

fun str_py :: "pyval \<Rightarrow> string" where
  "str_py PyNone = ''None''"
| "str_py (PyStr s) = s"
| "str_py (PyInt i) = str_int i"

text \<open>Truthiness, and \<^verbatim>\<open>a or b\<close>.\<close>

fun truthy :: "pyval \<Rightarrow> bool" where
  "truthy PyNone = False"
| "truthy (PyStr s) = (s \<noteq> [])"
| "truthy (PyInt i) = (i \<noteq> 0)"

definition py_or :: "pyval \<Rightarrow> pyval \<Rightarrow> pyval" where
  "py_or a b = (if truthy a then a else b)"

text \<open>\<^verbatim>\<open>sep.join(parts)\<close>.\<close>

fun join_str :: "string \<Rightarrow> string list \<Rightarrow> string" where
  "join_str sep [] = []"
| "join_str sep [p] = p"
| "join_str sep (p # q # ps) = p @ sep @ join_str sep (q # ps)"

text \<open>
  \<^verbatim>\<open>s.split(sep)\<close>: the pieces between the non-overlapping occurrences of
  \<^verbatim>\<open>sep\<close>, found from the left. \<open>cur\<close> is the piece being read. Python refuses an
  empty separator; both separators of the program are non-empty literals.
\<close>

function split_acc :: "string \<Rightarrow> string \<Rightarrow> string \<Rightarrow> string list" where
  "split_acc sep cur [] = [cur]"
| "split_acc sep cur (c # cs) =
     (if sep \<noteq> [] \<and> prefix sep (c # cs)
      then cur # split_acc sep [] (drop (length sep) (c # cs))
      else split_acc sep (cur @ [c]) cs)"
  by pat_completeness auto
termination
  by (relation "measure (\<lambda>(sep, cur, s). length s)") auto

definition split_py :: "string \<Rightarrow> string \<Rightarrow> string list" where
  "split_py s sep = split_acc sep [] s"

text \<open>\<^verbatim>\<open>xs[i]\<close> for a non-negative literal index: IndexError when out of range.\<close>

definition index_py :: "'a list \<Rightarrow> nat \<Rightarrow> error + 'a" where
  "index_py xs i = (if i < length xs then Inr (xs ! i) else Inl IndexError)"

text \<open>
  \<^verbatim>\<open>posixpath.join\<close>, \<^verbatim>\<open>posixpath.basename\<close> and
  \<^verbatim>\<open>posixpath.dirname\<close>.
\<close>

definition path_join2 :: "string \<Rightarrow> string \<Rightarrow> string" where
  "path_join2 a b =
     (if prefix ''/'' b then b
      else if a = [] \<or> suffix ''/'' a then a @ b
      else a @ ''/'' @ b)"

definition path_join :: "string \<Rightarrow> string list \<Rightarrow> string" where
  "path_join a ps = foldl path_join2 a ps"

definition basename :: "string \<Rightarrow> string" where
  "basename p = rev (takeWhile (\<lambda>c. c \<noteq> CHR ''/'') (rev p))"

definition rstrip_sep :: "string \<Rightarrow> string" where
  "rstrip_sep p = rev (dropWhile (\<lambda>c. c = CHR ''/'') (rev p))"

definition dirname :: "string \<Rightarrow> string" where
  "dirname p =
     (let head = rev (dropWhile (\<lambda>c. c \<noteq> CHR ''/'') (rev p))
      in if head \<noteq> [] \<and> \<not> list_all (\<lambda>c. c = CHR ''/'') head then rstrip_sep head else head)"

text \<open>Does \<open>s\<close> contain \<open>sub\<close> as a substring (\<^verbatim>\<open>sub in s\<close>)?\<close>

fun contains :: "string \<Rightarrow> string \<Rightarrow> bool" where
  "contains [] sub = (sub = [])"
| "contains (c # cs) sub = (prefix sub (c # cs) \<or> contains cs sub)"

section \<open>Path conventions\<close>

text \<open>
  \<^verbatim>\<open>BUILD_DIR = os.path.abspath(os.path.join(os.path.dirname(__file__), '..', 'build'))\<close>.
  \<^verbatim>\<open>abspath\<close> normalises the joined path, so the result is the absolute, normalised
  name of the directory above the package directory followed by \<^verbatim>\<open>/build\<close>. That
  directory depends on where the package is installed; it is the parameter \<open>root\<close>
  (empty when the directory above the package is the root).
\<close>

definition BUILD_DIR :: "string \<Rightarrow> string" where
  "BUILD_DIR root = root @ ''/build''"

definition manifold_name :: "pyval \<Rightarrow> pyval \<Rightarrow> pyval \<Rightarrow> pyval \<Rightarrow> string" where
  "manifold_name dataset metric min_points graph_ratio =
     join_str '':''
       (map str_py [dataset, metric, min_points, PyStr (str_py graph_ratio @ ''.pickle'')])"

definition manifold_path :: "string \<Rightarrow> pyval \<Rightarrow> pyval \<Rightarrow> pyval \<Rightarrow> pyval \<Rightarrow> string" where
  "manifold_path root dataset metric min_points graph_ratio =
     path_join (BUILD_DIR root) [manifold_name dataset metric min_points graph_ratio]"

definition dataset_from_path :: "string \<Rightarrow> error + string" where
  "dataset_from_path path = index_py (split_py (basename path) '':'') 0"

definition metric_from_path :: "string \<Rightarrow> error + string" where
  "metric_from_path path = index_py (split_py (basename path) '':'') 1"

record meta =
  meta_dataset :: string
  meta_metric :: string
  meta_min_points :: string
  meta_graph_ratio :: string

definition meta_from_path :: "string \<Rightarrow> error + meta" where
  "meta_from_path path =
     (let bundle = split_py (basename path) '':'' in
      and_then (index_py bundle 0) (\<lambda>b0.
      and_then (index_py bundle 1) (\<lambda>b1.
      and_then (index_py bundle 2) (\<lambda>b2.
      and_then (index_py bundle 3) (\<lambda>b3.
      and_then (index_py (split_py b3 ''.pickle'') 0) (\<lambda>g.
        Inr \<lparr>meta_dataset = b0, meta_metric = b1, meta_min_points = b2,
             meta_graph_ratio = g\<rparr>))))))"

text \<open>The path of a cached SVM model, as the \<^verbatim>\<open>svm\<close> command computes it.\<close>

definition svm_path :: "string \<Rightarrow> string \<Rightarrow> string \<Rightarrow> string" where
  "svm_path root dataset metric =
     path_join (BUILD_DIR root) [''svm'', join_str '':'' [dataset, metric]]"

section \<open>The state passed between chained commands\<close>

text \<open>
  \<^verbatim>\<open>cli\<close> builds the state from the options \<^verbatim>\<open>--dataset\<close> and
  \<^verbatim>\<open>--metric\<close>, both of a \<^verbatim>\<open>click.Choice\<close> type: a name or
  \<^verbatim>\<open>None\<close>. The manifold is an object of the clustering library, of type \<open>'m\<close>.
\<close>

record 'm State =
  dataset :: "string option"
  metric :: "string option"
  manifold :: "'m option"

definition State_init :: "string option \<Rightarrow> string option \<Rightarrow> 'm option \<Rightarrow> 'm State" where
  "State_init d m man = \<lparr>dataset = d, metric = m, manifold = man\<rparr>"

text \<open>The method \<^verbatim>\<open>State.__getattr__\<close>.\<close>

definition State_getattr :: "'m State \<Rightarrow> string \<Rightarrow> pyval" where
  "State_getattr self name = PyNone"

definition cli :: "string option \<Rightarrow> string option \<Rightarrow> 'm State" where
  "cli d m = State_init d m None"

definition py_of :: "string option \<Rightarrow> pyval" where
  "py_of x = (case x of None \<Rightarrow> PyNone | Some s \<Rightarrow> PyStr s)"








text \<open>
  \<^verbatim>\<open>[x] if x else keys\<close>, for an option that holds a name or \<^verbatim>\<open>None\<close>.
\<close>

definition chosen_or_all :: "string option \<Rightarrow> string list \<Rightarrow> string list" where
  "chosen_or_all x keys =
     (case x of None \<Rightarrow> keys | Some s \<Rightarrow> if truthy (PyStr s) then [s] else keys)"

section \<open>Loops that an exception leaves\<close>

text \<open>
  A \<^verbatim>\<open>for\<close> loop whose body updates a state and may raise: the loop stops at the
  first exception, with the state reached so far.
\<close>

fun for_each :: "'x list \<Rightarrow> ('x \<Rightarrow> 'st \<Rightarrow> 'st \<times> error option) \<Rightarrow> 'st \<Rightarrow> 'st \<times> error option" where
  "for_each [] body st = (st, None)"
| "for_each (x # xs) body st =
     (case body x st of
        (st', None) \<Rightarrow> for_each xs body st'
      | (st', Some e) \<Rightarrow> (st', Some e))"

section \<open>What the program imports\<close>

text \<open>
  The data set registry and reader, the clustering library, the scoring methods, the
  result plots and \<^verbatim>\<open>roc_auc_score\<close> are imported, not defined in
  \<^verbatim>\<open>__main__.py\<close>. They are parameters: \<open>'d\<close> data, \<open>'l\<close> labels, \<open>'m\<close>
  manifolds, \<open>'p\<close> pickled file contents, \<open>'g\<close> graphs, \<open>'a\<close> anomaly scores,
  \<open>'s\<close> AUC scores. A method, a plot or the AUC score may raise; the calls into the
  reader and the clustering library are taken to return. \<open>read\<close> takes the keyword
  arguments \<^verbatim>\<open>normalize\<close> and \<^verbatim>\<open>subsample\<close> when the call passes them;
  the download by \<^verbatim>\<open>get\<close> before it is left out. \<open>load\<close> is the loader of the
  library, which \<^verbatim>\<open>build\<close> reaches through the fresh manifold object and the
  other commands through the class. \<open>Manifold_build\<close> is the method
  \<^verbatim>\<open>manifold.build\<close>; \<open>rows\<close> is \<^verbatim>\<open>data.shape[0]\<close>.
\<close>

record ('d, 'l, 'm, 'p, 'g, 'a, 's) library =
  DATASETS :: "string list"
  read :: "string \<Rightarrow> (bool \<times> nat) option \<Rightarrow> 'd \<times> 'l"
  rows :: "'d \<Rightarrow> nat"
  Manifold :: "'d \<Rightarrow> string \<Rightarrow> 'm"
  load :: "'p \<Rightarrow> 'd \<Rightarrow> 'm"
  build_tree :: "'m \<Rightarrow> int \<Rightarrow> int \<Rightarrow> 'm"
  build_graphs :: "'m \<Rightarrow> 'm"
  Manifold_build :: "'m \<Rightarrow> int \<Rightarrow> int \<Rightarrow> 'm"
  dump :: "'m \<Rightarrow> 'p"
  depth :: "'m \<Rightarrow> int"
  graphs :: "'m \<Rightarrow> 'g list"
  manifold_metric :: "'m \<Rightarrow> string"
  n_subgraphs :: "'g \<Rightarrow> nat"
  n_clusters :: "'g \<Rightarrow> nat"
  METHODS :: "(string \<times> ('g \<Rightarrow> error + 'a)) list"
  RESULT_PLOTS :: "(string \<times> ('l \<Rightarrow> 'a \<Rightarrow> pyval \<Rightarrow> pyval \<Rightarrow> string \<Rightarrow> int \<Rightarrow> error option)) list"
  roc_auc_score :: "'l \<Rightarrow> 'a \<Rightarrow> error + 's"
  glob :: "string \<Rightarrow> string list"

definition SUB_SAMPLE :: nat where
  "SUB_SAMPLE = 10000"

definition NORMALIZE :: bool where
  "NORMALIZE = False"

definition METRICS :: "(string \<times> string) list" where
  "METRICS = [(''cosine'', ''cosine''), (''euclidean'', ''euclidean''), (''manhattan'', ''cityblock'')]"

text \<open>\<^verbatim>\<open>d[key]\<close> on a dictionary: KeyError when the key is missing.\<close>

definition lookup :: "(string \<times> 'v) list \<Rightarrow> string \<Rightarrow> error + 'v" where
  "lookup d key = (case map_of d key of None \<Rightarrow> Inl (KeyError key) | Some v \<Rightarrow> Inr v)"

text \<open>
  \<^verbatim>\<open>xs[i]\<close> for an integer index, which a loop over a range supplies: below zero
  it counts from the end of the list, and IndexError is raised outside the list.
\<close>

definition index_int :: "'a list \<Rightarrow> int \<Rightarrow> error + 'a" where
  "index_int xs i =
     (if 0 \<le> i
      then (if nat i < length xs then Inr (xs ! nat i) else Inl IndexError)
      else (if nat (- i) \<le> length xs then Inr (xs ! (length xs - nat (- i)))
            else Inl IndexError))"

section \<open>The command \<^verbatim>\<open>build\<close>\<close>

text \<open>
  What \<^verbatim>\<open>build\<close> does that can be observed: its log lines and its calls into the
  clustering library, in the order in which they happen. \<open>Loading\<close> and \<open>Dumping\<close>
  stand for the log line and the call to \<^verbatim>\<open>load\<close> or \<^verbatim>\<open>dump\<close> next to it;
  the criteria are \<^verbatim>\<open>MaxDepth\<close> and \<^verbatim>\<open>MinPoints\<close>.
\<close>

datatype build_event =
    Info_build string string
  | Loading string
  | Call_build_tree int int
  | Call_build_graphs
  | Call_build int int
  | Dumping string

text \<open>
  What the loops of \<^verbatim>\<open>build\<close> change: the local variable
  \<^verbatim>\<open>min_points\<close>, the files under the build directory, the state object and the
  trace of events.
\<close>

record ('m, 'p) build_state =
  min_points_var :: int
  files :: "string \<Rightarrow> 'p option"
  state :: "'m State"
  build_trace :: "build_event list"

text \<open>Line 97: \<^verbatim>\<open>max(3, min_points) if data.shape[0] > 10_000 else 3\<close>.\<close>

definition effective_min_points :: "nat \<Rightarrow> int \<Rightarrow> int" where
  "effective_min_points n min_points = (if n > 10000 then max 3 min_points else 3)"

text \<open>The body of the loop over the metrics, lines 89 to 120.\<close>

definition build_body ::
  "('d, 'l, 'm, 'p, 'g, 'a, 's) library \<Rightarrow> string \<Rightarrow> int \<Rightarrow> int \<Rightarrow> string \<Rightarrow> 'd \<Rightarrow> string \<Rightarrow>
   ('m, 'p) build_state \<Rightarrow> ('m, 'p) build_state \<times> error option" where
  "build_body L root max_depth graph_ratio dataset_name data metric_name bs =
     (let bs = bs\<lparr>build_trace := build_trace bs @ [Info_build dataset_name metric_name]\<rparr> in
      case lookup METRICS metric_name of
        Inl e \<Rightarrow> (bs, Some e)
      | Inr distance \<Rightarrow>
         (let manifold = Manifold L data distance;
              min_points = effective_min_points (rows L data) (min_points_var bs);
              filepath = manifold_path root (PyStr dataset_name) (PyStr metric_name)
                           (PyInt min_points) (PyInt graph_ratio)
          in case files bs filepath of
               Some pickled \<Rightarrow>
                 (let manifold = load L pickled data;
                      manifold = build_tree L manifold max_depth min_points;
                      manifold = build_graphs L manifold
                  in (bs\<lparr>min_points_var := min_points,
                          files := (files bs)(filepath \<mapsto> dump L manifold),
                          state := (state bs)\<lparr>manifold := Some manifold\<rparr>,
                          build_trace := build_trace bs @
                            [Loading filepath, Call_build_tree max_depth min_points,
                             Call_build_graphs, Dumping filepath]\<rparr>,
                      None))
             | None \<Rightarrow>
                 (let manifold = Manifold_build L manifold max_depth min_points
                  in (bs\<lparr>min_points_var := min_points,
                          files := (files bs)(filepath \<mapsto> dump L manifold),
                          state := (state bs)\<lparr>manifold := Some manifold\<rparr>,
                          build_trace := build_trace bs @
                            [Call_build max_depth min_points, Dumping filepath]\<rparr>,
                      None))))"

definition build ::
  "('d, 'l, 'm, 'p, 'g, 'a, 's) library \<Rightarrow> string \<Rightarrow> (string \<Rightarrow> 'p option) \<Rightarrow> 'm State \<Rightarrow>
   int \<Rightarrow> int \<Rightarrow> int \<Rightarrow> ('m, 'p) build_state \<times> error option" where
  "build L root fs st max_depth min_points graph_ratio =
     (let metrics = chosen_or_all (metric st) (map fst METRICS) in
      for_each (chosen_or_all (dataset st) (DATASETS L))
        (\<lambda>dataset_name bs.
           let (data, labels) = read L dataset_name (Some (NORMALIZE, SUB_SAMPLE))
           in for_each metrics (build_body L root max_depth graph_ratio dataset_name data) bs)
        \<lparr>min_points_var = min_points, files = fs, state = st, build_trace = []\<rparr>)"

section \<open>The commands \<^verbatim>\<open>test\<close> and \<^verbatim>\<open>plot_results\<close>\<close>

text \<open>
  The argument of \<^verbatim>\<open>glob\<close>, the same expression in both commands:
  \<^verbatim>\<open>_manifold_path(state.datset or '*', state.metric or '*', min_points, graph_ratio)\<close>.
  The state has no attribute \<^verbatim>\<open>datset\<close>, so that read is answered by
  \<^verbatim>\<open>__getattr__\<close>.
\<close>

definition glob_pattern :: "string \<Rightarrow> 'm State \<Rightarrow> string \<Rightarrow> string \<Rightarrow> string" where
  "glob_pattern root st min_points graph_ratio =
     manifold_path root
       (py_or (State_getattr st ''datset'') (PyStr ''*''))
       (py_or (py_of (metric st)) (PyStr ''*''))
       (PyStr min_points) (PyStr graph_ratio)"

text \<open>
  An element of \<^verbatim>\<open>manifolds\<close>: the manifold object of the state, or a path that
  \<^verbatim>\<open>glob\<close> returned. A manifold object counts as true.
\<close>

datatype 'm source = Object 'm | Path string

definition select_manifolds ::
  "('d, 'l, 'm, 'p, 'g, 'a, 's) library \<Rightarrow> string \<Rightarrow> 'm State \<Rightarrow> string \<Rightarrow> string \<Rightarrow> 'm source list" where
  "select_manifolds L root st min_points graph_ratio =
     (case manifold st of
        Some m \<Rightarrow> [Object m]
      | None \<Rightarrow> map Path (glob L (glob_pattern root st min_points graph_ratio)))"

datatype 's event =
    Debug_calling string
  | Call string int
  | Info_score int nat nat 's string
  | Exception error
  | Info_loading string
  | Info_plot string pyval int int string string
  | Plot string string pyval string int

text \<open>The methods that line 145 and line 190 skip below the deepest graph.\<close>

definition skipped :: "('d, 'l, 'm, 'p, 'g, 'a, 's) library \<Rightarrow> 'm \<Rightarrow> string \<Rightarrow> int \<Rightarrow> bool" where
  "skipped L man method d =
     (method \<in> {''n_points_in_ball'', ''k_nearest''} \<and> d < depth L man)"

text \<open>
  \<^verbatim>\<open>METHODS[method](manifold.graphs[depth])\<close>: the method is looked up, then the
  graph, then the method is called.
\<close>

definition call_method ::
  "('d, 'l, 'm, 'p, 'g, 'a, 's) library \<Rightarrow> 'm \<Rightarrow> string \<Rightarrow> int \<Rightarrow> error + 'a" where
  "call_method L man method d =
     and_then (lookup (METHODS L) method) (\<lambda>f. and_then (index_int (graphs L man) d) f)"

text \<open>
  The log line of lines 150 to 156: the depth, the numbers of subgraphs and of clusters
  of \<^verbatim>\<open>manifold.graphs[depth]\<close>, the AUC score of the anomaly values against the
  labels, and the method.
\<close>

definition score_line ::
  "('d, 'l, 'm, 'p, 'g, 'a, 's) library \<Rightarrow> 'l \<Rightarrow> 'm \<Rightarrow> int \<Rightarrow> string \<Rightarrow> 'a \<Rightarrow> error + 's event" where
  "score_line L labels man d method anomalies =
     and_then (index_int (graphs L man) d) (\<lambda>g.
     and_then (roc_auc_score L labels anomalies) (\<lambda>score.
       Inr (Info_score d (n_subgraphs L g) (n_clusters L g) score method)))"

text \<open>
  The body of the loop over the depths in \<^verbatim>\<open>test\<close>, lines 144 to 158. The call
  of line 148 stands before the \<^verbatim>\<open>try\<close>; the \<^verbatim>\<open>try\<close> holds the log line.
  \<open>Call\<close> records that line 148 ran for this method and depth.
\<close>

definition test_step ::
  "('d, 'l, 'm, 'p, 'g, 'a, 's) library \<Rightarrow> 'l \<Rightarrow> 'm \<Rightarrow> string \<Rightarrow> int \<Rightarrow>
   's event list \<Rightarrow> 's event list \<times> error option" where
  "test_step L labels man method d tr =
     (if skipped L man method d then (tr, None)
      else
        (case call_method L man method d of
           Inl e \<Rightarrow> (tr @ [Debug_calling method, Call method d], Some e)
         | Inr anomalies \<Rightarrow>
            (case score_line L labels man d method anomalies of
               Inr line \<Rightarrow> (tr @ [Debug_calling method, Call method d, line], None)
             | Inl e \<Rightarrow> (tr @ [Debug_calling method, Call method d, Exception e], None))))"

text \<open>Lines 142 to 158: the loops over the methods and the depths, for one manifold.\<close>

definition test_sweep ::
  "('d, 'l, 'm, 'p, 'g, 'a, 's) library \<Rightarrow> 'l \<Rightarrow> 'm \<Rightarrow> string list \<Rightarrow>
   's event list \<Rightarrow> 's event list \<times> error option" where
  "test_sweep L labels man methods tr =
     for_each methods (\<lambda>method. for_each [0..depth L man] (test_step L labels man method)) tr"

text \<open>Opening a cached manifold and loading it.\<close>

definition open_load ::
  "('d, 'l, 'm, 'p, 'g, 'a, 's) library \<Rightarrow> (string \<Rightarrow> 'p option) \<Rightarrow> string \<Rightarrow> 'd \<Rightarrow> error + 'm" where
  "open_load L fs path data =
     (case fs path of
        None \<Rightarrow> Inl (External ''FileNotFoundError'')
      | Some pickled \<Rightarrow> Inr (load L pickled data))"

text \<open>
  \<^verbatim>\<open>os.path.basename\<close> of an element of \<^verbatim>\<open>manifolds\<close>: a manifold object is
  not a path.
\<close>

definition source_path :: "'m source \<Rightarrow> error + string" where
  "source_path src = (case src of Object m \<Rightarrow> Inl TypeError | Path p \<Rightarrow> Inr p)"

text \<open>
  Lines 132 to 140 of \<^verbatim>\<open>test\<close>: the labels are read, for the data set of the
  state or else for the one that the path names, and a path is opened and the manifold
  loaded from it.
\<close>

definition test_prepare ::
  "('d, 'l, 'm, 'p, 'g, 'a, 's) library \<Rightarrow> (string \<Rightarrow> 'p option) \<Rightarrow> 'm State \<Rightarrow> 'm source \<Rightarrow>
   error + 'l \<times> 'm" where
  "test_prepare L fs st src =
     and_then
       (case dataset st of
          Some d \<Rightarrow>
            if truthy (PyStr d) then Inr (read L d None)
            else and_then (and_then (source_path src) dataset_from_path)
                   (\<lambda>d. Inr (read L d (Some (NORMALIZE, SUB_SAMPLE))))
        | None \<Rightarrow>
            and_then (and_then (source_path src) dataset_from_path)
              (\<lambda>d. Inr (read L d (Some (NORMALIZE, SUB_SAMPLE)))))
       (\<lambda>(data, labels).
          and_then (case src of Object m \<Rightarrow> Inr m | Path p \<Rightarrow> open_load L fs p data)
            (\<lambda>man. Inr (labels, man)))"

text \<open>The body of the loop over the manifolds in \<^verbatim>\<open>test\<close>, lines 132 to 158.\<close>

definition test_manifold ::
  "('d, 'l, 'm, 'p, 'g, 'a, 's) library \<Rightarrow> (string \<Rightarrow> 'p option) \<Rightarrow> 'm State \<Rightarrow> string list \<Rightarrow>
   'm source \<Rightarrow> 's event list \<Rightarrow> 's event list \<times> error option" where
  "test_manifold L fs st methods src tr =
     (case test_prepare L fs st src of
        Inl e \<Rightarrow> (tr, Some e)
      | Inr (labels, man) \<Rightarrow> test_sweep L labels man methods tr)"

definition test ::
  "('d, 'l, 'm, 'p, 'g, 'a, 's) library \<Rightarrow> string \<Rightarrow> (string \<Rightarrow> 'p option) \<Rightarrow> 'm State \<Rightarrow>
   string option \<Rightarrow> string \<Rightarrow> string \<Rightarrow> 's event list \<times> error option" where
  "test L root fs st method min_points graph_ratio =
     (let manifolds = select_manifolds L root st min_points graph_ratio;
          methods = chosen_or_all method (map fst (METHODS L))
      in for_each manifolds (test_manifold L fs st methods) [])"







section \<open>The commands \<^verbatim>\<open>plot_data\<close> and \<^verbatim>\<open>animate\<close>\<close>

text \<open>
  Both bodies start with \<^verbatim>\<open>raise NotImplementedError\<close>; the statements after it
  are never reached. \<open>w\<close> is whatever the command could have changed: files, log,
  state.
\<close>

definition plot_data :: "'w \<Rightarrow> 'w \<times> error option" where
  "plot_data w = (w, Some NotImplementedError)"

definition animate :: "string \<Rightarrow> string \<Rightarrow> 'w \<Rightarrow> 'w \<times> error option" where
  "animate dataset_name metric_name w = (w, Some NotImplementedError)"

section \<open>Notions used in the statements\<close>

text \<open>
  The elements of a list that a loop reaches when its body raises \<open>err x\<close> at \<open>x\<close>:
  all up to and including the first at which the body raises. \<open>first_error\<close> is that
  exception.
\<close>

fun reached :: "('x \<Rightarrow> error option) \<Rightarrow> 'x list \<Rightarrow> 'x list" where
  "reached err [] = []"
| "reached err (x # xs) = (case err x of None \<Rightarrow> x # reached err xs | Some e \<Rightarrow> [x])"

fun first_error :: "('x \<Rightarrow> error option) \<Rightarrow> 'x list \<Rightarrow> error option" where
  "first_error err [] = None"
| "first_error err (x # xs) = (case err x of None \<Rightarrow> first_error err xs | Some e \<Rightarrow> Some e)"

text \<open>
  The pairs of a method and a depth that a sweep from \<open>start\<close> evaluates when nothing
  raises, in the order of the loops.
\<close>

definition evaluated ::
  "('d, 'l, 'm, 'p, 'g, 'a, 's) library \<Rightarrow> 'm \<Rightarrow> string list \<Rightarrow> int \<Rightarrow> (string \<times> int) list" where
  "evaluated L man methods start =
     concat (map (\<lambda>m. map (Pair m) (filter (\<lambda>d. \<not> skipped L man m d) [start..depth L man]))
       methods)"

text \<open>The calls of scoring methods that a trace records.\<close>

fun call_of :: "'s event \<Rightarrow> (string \<times> int) option" where
  "call_of (Call m d) = Some (m, d)"
| "call_of _ = None"

definition calls :: "'s event list \<Rightarrow> (string \<times> int) list" where
  "calls tr = List.map_filter call_of tr"

text \<open>
  The events of one evaluated method and depth in \<^verbatim>\<open>test\<close>, and the exception
  that leaves the loops there, if any.
\<close>

definition test_events ::
  "('d, 'l, 'm, 'p, 'g, 'a, 's) library \<Rightarrow> 'l \<Rightarrow> 'm \<Rightarrow> string \<times> int \<Rightarrow> 's event list" where
  "test_events L labels man md =
     (case md of (m, d) \<Rightarrow>
        [Debug_calling m, Call m d] @
        (case call_method L man m d of
           Inl e \<Rightarrow> []
         | Inr anomalies \<Rightarrow>
            [case score_line L labels man d m anomalies of
               Inr line \<Rightarrow> line
             | Inl e \<Rightarrow> Exception e]))"

definition method_error ::
  "('d, 'l, 'm, 'p, 'g, 'a, 's) library \<Rightarrow> 'm \<Rightarrow> string \<times> int \<Rightarrow> error option" where
  "method_error L man md =
     (case md of (m, d) \<Rightarrow>
        (case call_method L man m d of Inl e \<Rightarrow> Some e | Inr anomalies \<Rightarrow> None))"





section \<open>A small instance\<close>

text \<open>
  An instance of the imported parts, for evaluating the commands: a data set is its
  number of rows (20000 for \<^verbatim>\<open>covtype\<close>, 5000 for any other), a manifold is its
  depth and has the graphs \<open>0\<close> to its depth, a graph is its depth. The method \<^verbatim>\<open>broken\<close> raises, the others return the depth of the
  graph; the AUC score raises for the graph of depth 0.
\<close>

definition example_library :: "(nat, unit, nat, nat, nat, nat, nat) library" where
  "example_library =
     \<lparr>DATASETS = [''mnist'', ''covtype''],
      read = (\<lambda>name options. (if name = ''covtype'' then 20000 else 5000, ())),
      rows = (\<lambda>data. data),
      Manifold = (\<lambda>data distance. 0),
      load = (\<lambda>pickled data. pickled),
      build_tree = (\<lambda>man max_depth min_points. man),
      build_graphs = (\<lambda>man. man),
      Manifold_build = (\<lambda>man max_depth min_points. 2),
      dump = (\<lambda>man. man),
      depth = (\<lambda>man. int man),
      graphs = (\<lambda>man. [0..<Suc man]),
      manifold_metric = (\<lambda>man. ''euclidean''),
      n_subgraphs = (\<lambda>g. 1),
      n_clusters = (\<lambda>g. Suc g),
      METHODS =
        [(''cluster_cardinality'', \<lambda>g. Inr g),
         (''k_nearest'', \<lambda>g. Inr g),
         (''broken'', \<lambda>g. Inl (External ''ValueError''))],
      RESULT_PLOTS = [(''roc_curve'', \<lambda>labels anomalies d m method dp. None)],
      roc_auc_score = (\<lambda>labels anomalies.
        if anomalies = 0 then Inl (External ''ValueError'') else Inr anomalies),
      glob = (\<lambda>pattern. [])\<rparr>"

section \<open>Facts about the library functions\<close>

lemma split_acc_no_sep: "c \<notin> set a \<Longrightarrow> split_acc [c] cur a = [cur @ a]"
  by (induction a arbitrary: cur) auto

lemma split_acc_sep:
  "c \<notin> set a \<Longrightarrow> split_acc [c] cur (a @ c # rest) = (cur @ a) # split_acc [c] [] rest"
  by (induction a arbitrary: cur) auto

lemma prefix_own_suffix:
  assumes "sep \<noteq> []" "hd sep \<notin> set (tl sep)" "g \<noteq> []" "prefix sep (g @ sep)"
  shows "prefix sep g"
proof -
  from assms(4) consider "prefix sep g" | us where "sep = g @ us" "prefix us sep"
    by (auto simp: prefix_append)
  then show ?thesis
  proof cases
    case 1 then show ?thesis .
  next
    case 2
    show ?thesis
    proof (cases us)
      case Nil
      with 2 show ?thesis by simp
    next
      case (Cons u us')
      with 2(2) assms(1) have "u = hd sep" by (cases sep) auto
      moreover from 2(1) Cons assms(3) have "u \<in> set (tl sep)" by (cases g) auto
      ultimately show ?thesis using assms(2) by simp
    qed
  qed
qed

lemma split_acc_suffix:
  assumes "sep \<noteq> []" "hd sep \<notin> set (tl sep)" "\<not> contains g sep"
  shows "split_acc sep cur (g @ sep) = [cur @ g, []]"
  using assms(3)
proof (induction g arbitrary: cur)
  case Nil
  with assms(1) show ?case by (cases sep) auto
next
  case (Cons x xs)
  then have np: "\<not> prefix sep (x # xs)" and nc: "\<not> contains xs sep" by auto
  have "\<not> prefix sep ((x # xs) @ sep)"
    using prefix_own_suffix [OF assms(1,2), of "x # xs"] np by blast
  then show ?case using Cons.IH [OF nc] by simp
qed

lemma takeWhile_not_sep:
  assumes "CHR ''/'' \<notin> set n"
  shows "takeWhile (\<lambda>c. c \<noteq> CHR ''/'') (rev n @ CHR ''/'' # q) = rev n"
proof -
  have "takeWhile (\<lambda>c. c \<noteq> CHR ''/'') (rev n @ CHR ''/'' # q)
      = rev n @ takeWhile (\<lambda>c. c \<noteq> CHR ''/'') (CHR ''/'' # q)"
    by (rule takeWhile_append2) (use assms in auto)
  then show ?thesis by simp
qed

lemma dropWhile_not_sep:
  assumes "CHR ''/'' \<notin> set n"
  shows "dropWhile (\<lambda>c. c \<noteq> CHR ''/'') (rev n @ CHR ''/'' # q) = CHR ''/'' # q"
proof -
  have "dropWhile (\<lambda>c. c \<noteq> CHR ''/'') (rev n @ CHR ''/'' # q)
      = dropWhile (\<lambda>c. c \<noteq> CHR ''/'') (CHR ''/'' # q)"
    by (rule dropWhile_append2) (use assms in auto)
  then show ?thesis by simp
qed

lemma basename_append: "CHR ''/'' \<notin> set n \<Longrightarrow> basename (p @ CHR ''/'' # n) = n"
  by (simp add: basename_def takeWhile_not_sep)

lemma dirname_append:
  "CHR ''/'' \<notin> set n \<Longrightarrow> dirname (BUILD_DIR root @ CHR ''/'' # n) = BUILD_DIR root"
  by (simp add: dirname_def BUILD_DIR_def rstrip_sep_def dropWhile_not_sep Let_def)

lemma digit_char_in: "d < 10 \<Longrightarrow> digit_char d \<in> set ''0123456789''"
  unfolding digit_char_def by (rule nth_mem) simp

lemma str_nat_small: "n < 10 \<Longrightarrow> str_nat n = [digit_char n]"
  by (subst str_nat.simps) simp

lemma str_nat_big: "\<not> n < 10 \<Longrightarrow> str_nat n = str_nat (n div 10) @ [digit_char (n mod 10)]"
  by (subst str_nat.simps) simp

lemma str_nat_in:
  assumes D: "\<And>d. d < 10 \<Longrightarrow> digit_char d \<in> D"
  shows "set (str_nat n) \<subseteq> D"
proof (induction n rule: str_nat.induct)
  case (1 n)
  show ?case
  proof (cases "n < 10")
    case True
    then show ?thesis using D [of n] by (simp add: str_nat_small)
  next
    case False
    then show ?thesis using 1 D [of "n mod 10"] by (simp add: str_nat_big)
  qed
qed

lemma str_nat_digits: "set (str_nat n) \<subseteq> set ''0123456789''"
  by (rule str_nat_in) (rule digit_char_in)

lemma str_int_in:
  assumes D: "\<And>d. d < 10 \<Longrightarrow> digit_char d \<in> D" and m: "CHR ''-'' \<in> D"
  shows "set (str_int i) \<subseteq> D"
  using str_nat_in [of D "nat i", OF D] str_nat_in [of D "nat (- i)", OF D] m
  by (simp add: str_int_def)

lemma digit_char_neq:
  assumes "d < 10" "c \<notin> set ''0123456789''"
  shows "digit_char d \<noteq> c"
  using digit_char_in [OF assms(1)] assms(2) by metis

lemma str_int_avoids:
  assumes c2: "c \<noteq> CHR ''-''" and c1: "c \<notin> set ''0123456789''"
  shows "c \<notin> set (str_int i)"
proof -
  have "set (str_int i) \<subseteq> {x. x \<noteq> c}"
    by (rule str_int_in) (use digit_char_neq [OF _ c1] c2 in simp_all)
  then show ?thesis by blast
qed

lemma colon_not_in_str_int: "CHR '':'' \<notin> set (str_int i)"
  by (rule str_int_avoids) simp_all

lemma slash_not_in_str_int: "CHR ''/'' \<notin> set (str_int i)"
  by (rule str_int_avoids) simp_all

lemma dot_not_in_str_int: "CHR ''.'' \<notin> set (str_int i)"
  by (rule str_int_avoids) simp_all

lemma contains_hd: "contains s sub \<Longrightarrow> sub \<noteq> [] \<Longrightarrow> hd sub \<in> set s"
proof (induction s)
  case Nil
  then show ?case by simp
next
  case (Cons a s)
  then show ?case by (cases sub) auto
qed

lemma no_pickle_in_str_int: "\<not> contains (str_int i) ''.pickle''"
  using contains_hd [of "str_int i" "''.pickle''"] dot_not_in_str_int [of i] by auto

lemma join_str4: "join_str s [a, b, c, d] = a @ s @ b @ s @ c @ s @ d"
  by simp

lemma manifold_name_eq:
  "manifold_name d m p g =
     str_py d @ '':'' @ str_py m @ '':'' @ str_py p @ '':'' @ str_py g @ ''.pickle''"
  by (simp add: manifold_name_def)

lemma path_join_build:
  "\<not> prefix ''/'' n \<Longrightarrow> path_join (BUILD_DIR root) [n] = BUILD_DIR root @ ''/'' @ n"
  by (simp add: path_join_def path_join2_def BUILD_DIR_def suffix_def)

lemma not_prefix_sep: "CHR ''/'' \<notin> set n \<Longrightarrow> \<not> prefix ''/'' n"
  by (cases n) auto

lemma manifold_name_no_sep:
  assumes "CHR ''/'' \<notin> set (str_py d)" "CHR ''/'' \<notin> set (str_py m)"
    "CHR ''/'' \<notin> set (str_py p)" "CHR ''/'' \<notin> set (str_py g)"
  shows "CHR ''/'' \<notin> set (manifold_name d m p g)"
  using assms by (simp add: manifold_name_eq)

lemma split_manifold_name:
  assumes "CHR '':'' \<notin> set (str_py d)" "CHR '':'' \<notin> set (str_py m)"
    "CHR '':'' \<notin> set (str_py p)" "CHR '':'' \<notin> set (str_py g)"
  shows "split_py (manifold_name d m p g) '':'' =
           [str_py d, str_py m, str_py p, str_py g @ ''.pickle'']"
proof -
  have last: "split_acc '':'' [] (str_py g @ ''.pickle'') = [str_py g @ ''.pickle'']"
    using split_acc_no_sep [of "CHR '':''" "str_py g @ ''.pickle''" "[]"] assms(4) by simp
  have "split_acc '':'' [] (str_py d @ CHR '':'' # str_py m @ CHR '':'' # str_py p @ CHR '':'' #
            str_py g @ ''.pickle'') =
        [str_py d, str_py m, str_py p, str_py g @ ''.pickle'']"
    by (simp only: split_acc_sep [OF assms(1)] split_acc_sep [OF assms(2)]
          split_acc_sep [OF assms(3)] last append_Nil)
  then show ?thesis by (simp add: split_py_def manifold_name_eq)
qed

lemma split_pickle:
  assumes "\<not> contains g ''.pickle''"
  shows "split_py (g @ ''.pickle'') ''.pickle'' = [g, []]"
  using split_acc_suffix [of "''.pickle''" g "[]"] assms by (simp add: split_py_def)

lemma svm_path_eq:
  "\<not> prefix ''/'' d \<Longrightarrow> svm_path root d m = BUILD_DIR root @ ''/svm/'' @ d @ '':'' @ m"
  by (cases d) (simp_all add: svm_path_def path_join_def path_join2_def BUILD_DIR_def suffix_def)

section \<open>Facts about loops\<close>

lemma for_each_writer:
  assumes "\<And>x st. body x st = (st @ out x, err x)"
  shows "for_each xs body st = (st @ concat (map out (reached err xs)), first_error err xs)"
proof (induction xs arbitrary: st)
  case Nil
  show ?case by simp
next
  case (Cons x xs)
  show ?case
  proof (cases "err x")
    case None
    then show ?thesis using Cons [of "st @ out x"] by (simp add: assms)
  next
    case (Some e)
    then show ?thesis by (simp add: assms)
  qed
qed

lemma first_error_None_iff: "first_error err xs = None \<longleftrightarrow> (\<forall>x\<in>set xs. err x = None)"
  by (induction xs) (auto split: option.splits)

lemma reached_all: "first_error err xs = None \<Longrightarrow> reached err xs = xs"
  by (induction xs) (auto split: option.splits)




lemma concat_map_guard:
  "concat (map (\<lambda>d. if sk d then [] else f (m, d)) ds) =
   concat (map f (map (Pair m) (filter (\<lambda>d. \<not> sk d) ds)))"
  by (induction ds) simp_all

lemma concat_pairs:
  "concat (map (\<lambda>m. concat (map (\<lambda>d. if sk m d then [] else f (m, d)) ds)) ms) =
   concat (map f (concat (map (\<lambda>m. map (Pair m) (filter (\<lambda>d. \<not> sk m d) ds)) ms)))"
  by (induction ms) (simp_all add: concat_map_guard)


section \<open>Facts about the sweeps\<close>



lemma test_step_writer:
  "test_step L labels man m d tr =
     (tr @ (if skipped L man m d then [] else test_events L labels man (m, d)),
      if skipped L man m d then None else method_error L man (m, d))"
  by (simp add: test_step_def test_events_def method_error_def split: sum.splits)


lemma set_evaluated:
  "set (evaluated L man methods start) =
     {(m, d). m \<in> set methods \<and> start \<le> d \<and> d \<le> depth L man \<and> \<not> skipped L man m d}"
  by (auto simp: evaluated_def)

lemma test_sweep_eq:
  fixes L :: "('d, 'l, 'm, 'p, 'g, 'a, 's) library" and labels man
  defines "ds \<equiv> [0..depth L man]"
    and "SO \<equiv> \<lambda>m d. if skipped L man m d then [] else test_events L labels man (m, d)"
    and "SE \<equiv> \<lambda>m d. if skipped L man m d then None else method_error L man (m, d)"
  shows "test_sweep L labels man methods tr =
           (tr @ concat (map (\<lambda>m. concat (map (SO m) (reached (SE m) ds)))
                    (reached (\<lambda>m. first_error (SE m) ds) methods)),
            first_error (\<lambda>m. first_error (SE m) ds) methods)"
proof -
  have inner: "for_each ds (test_step L labels man m) st =
      (st @ concat (map (SO m) (reached (SE m) ds)), first_error (SE m) ds)" for m st
    unfolding SO_def SE_def by (rule for_each_writer) (rule test_step_writer)
  show ?thesis
    unfolding test_sweep_def ds_def [symmetric] by (rule for_each_writer) (rule inner)
qed

lemma test_sweep_error:
  "snd (test_sweep L labels man methods tr) = None \<longleftrightarrow>
     (\<forall>md\<in>set (evaluated L man methods 0). method_error L man md = None)"
  by (auto simp: test_sweep_eq first_error_None_iff set_evaluated)


lemma test_sweep_complete:
  assumes "snd (test_sweep L labels man methods tr) = None"
  shows "fst (test_sweep L labels man methods tr) =
           tr @ concat (map (test_events L labels man) (evaluated L man methods 0))"
proof -
  let ?SE = "\<lambda>m d. if skipped L man m d then None else method_error L man (m, d)"
  let ?ds = "[0..depth L man]"
  from assms have all: "first_error (\<lambda>m. first_error (?SE m) ?ds) methods = None"
    by (simp add: test_sweep_eq)
  then have inner: "reached (?SE m) ?ds = ?ds" if "m \<in> set methods" for m
    using that by (auto simp: first_error_None_iff intro!: reached_all)
  have "fst (test_sweep L labels man methods tr) =
      tr @ concat (map (\<lambda>m. concat (map (\<lambda>d. if skipped L man m d then []
              else test_events L labels man (m, d)) (reached (?SE m) ?ds))) methods)"
    by (simp add: test_sweep_eq reached_all [OF all])
  also have "\<dots> = tr @ concat (map (\<lambda>m. concat (map (\<lambda>d. if skipped L man m d then []
              else test_events L labels man (m, d)) ?ds)) methods)"
    using inner by (simp cong: map_cong)
  also have "\<dots> = tr @ concat (map (test_events L labels man) (evaluated L man methods 0))"
    by (simp add: concat_pairs evaluated_def)
  finally show ?thesis .
qed











lemma evaluated_iff:
  "(m, d) \<in> set (evaluated L man methods start) \<longleftrightarrow>
     m \<in> set methods \<and> start \<le> d \<and> d \<le> depth L man \<and>
     (m = ''n_points_in_ball'' \<or> m = ''k_nearest'' \<longrightarrow> d = depth L man)"
  by (auto simp: set_evaluated skipped_def)

lemma method_ok_graph:
  assumes "method_error L man (m, d) = None"
  shows "\<exists>a g. call_method L man m d = Inr a \<and> index_int (graphs L man) d = Inr g \<and>
           test_events L labels man (m, d) =
             [Debug_calling m, Call m d,
              case roc_auc_score L labels a of
                Inr score \<Rightarrow> Info_score d (n_subgraphs L g) (n_clusters L g) score m
              | Inl e \<Rightarrow> Exception e]"
  using assms
  by (auto simp: method_error_def test_events_def call_method_def score_line_def and_then_def
      split: sum.splits)

lemma upto_example: "[0..1] = [0, 1]" "[0..2] = [0, 1, 2]"
  by (simp_all add: upto.simps)



lemma example_evaluated:
  "evaluated example_library 1 [''cluster_cardinality'', ''k_nearest''] 0 =
     [(''cluster_cardinality'', 0), (''cluster_cardinality'', 1), (''k_nearest'', 1)]"
  by (simp add: evaluated_def skipped_def example_library_def upto_example)


section \<open>Facts about \<^verbatim>\<open>build\<close>\<close>



lemma for_each_product:
  "for_each xs (\<lambda>x. for_each ys (f x)) st = for_each (List.product xs ys) (\<lambda>(x, y). f x y) st"
proof (induction xs arbitrary: st)
  case Nil
  show ?case by simp
next
  case (Cons x xs)
  have app: "for_each (as @ bs) g s =
      (case for_each as g s of (s', None) \<Rightarrow> for_each bs g s' | (s', Some e) \<Rightarrow> (s', Some e))"
    for as bs and g :: "'d \<Rightarrow> 'e \<Rightarrow> 'e \<times> error option" and s
    by (induction as arbitrary: s) (auto split: prod.splits option.splits)
  have mp: "for_each (map (Pair x) ys) (\<lambda>(x, y). f x y) s = for_each ys (f x) s" for s
    by (induction ys arbitrary: s) (auto split: prod.splits option.splits)
  show ?case
    by (simp add: app mp Cons split: prod.splits option.splits)
qed

lemma build_body_ok:
  assumes "lookup METRICS metric_name = Inr distance"
  shows "build_body L root max_depth graph_ratio dataset_name data metric_name bs =
    (let k = effective_min_points (rows L data) (min_points_var bs);
         filepath = manifold_path root (PyStr dataset_name) (PyStr metric_name) (PyInt k)
                      (PyInt graph_ratio);
         result = (case files bs filepath of
                     Some pickled \<Rightarrow> build_graphs L (build_tree L (load L pickled data) max_depth k)
                   | None \<Rightarrow> Manifold_build L (Manifold L data distance) max_depth k)
     in (bs\<lparr>min_points_var := k,
            files := (files bs)(filepath \<mapsto> dump L result),
            state := (state bs)\<lparr>manifold := Some result\<rparr>,
            build_trace := build_trace bs @ Info_build dataset_name metric_name #
              (case files bs filepath of
                 Some pickled \<Rightarrow> [Loading filepath, Call_build_tree max_depth k, Call_build_graphs]
               | None \<Rightarrow> [Call_build max_depth k]) @ [Dumping filepath]\<rparr>, None))"
  using assms by (simp add: build_body_def Let_def split: option.splits)

lemma build_flat:
  "build L root fs st max_depth min_points graph_ratio =
     for_each (List.product (chosen_or_all (dataset st) (DATASETS L))
                 (chosen_or_all (metric st) (map fst METRICS)))
       (\<lambda>(dataset_name, metric_name).
          build_body L root max_depth graph_ratio dataset_name
            (fst (read L dataset_name (Some (NORMALIZE, SUB_SAMPLE)))) metric_name)
       \<lparr>min_points_var = min_points, files = fs, state = st, build_trace = []\<rparr>"
  by (simp add: build_def Let_def for_each_product [symmetric] split_beta)






lemma example_path:
  "manifold_path ''/opt/anomaly'' (PyStr ''mnist'') (PyStr ''euclidean'') (PyInt 3) (PyInt 100) =
     ''/opt/anomaly/build/mnist:euclidean:3:100.pickle''"
proof -
  have s3: "str_int 3 = ''3''" and s100: "str_int 100 = ''100''"
    by (simp_all add: str_int_def str_nat_small str_nat_big digit_char_def)
  show ?thesis
    using path_join_build [of "''mnist:euclidean:3:100.pickle''" "''/opt/anomaly''"]
    by (simp add: manifold_path_def manifold_name_def s3 s100 BUILD_DIR_def)
qed


section \<open>Facts about the commands\<close>

lemma test_sweep_append:
  "test_sweep L labels man methods tr =
     (tr @ fst (test_sweep L labels man methods []), snd (test_sweep L labels man methods []))"
  by (simp add: test_sweep_eq)


lemma test_manifold_writer:
  "test_manifold L fs st methods src tr =
     (tr @ fst (test_manifold L fs st methods src []), snd (test_manifold L fs st methods src []))"
  using test_sweep_append [of L _ _ methods tr]
  by (auto simp: test_manifold_def split: sum.splits)


lemma test_complete:
  assumes "snd (test L root fs st method min_points graph_ratio) = None"
  shows "fst (test L root fs st method min_points graph_ratio) =
           concat (map (\<lambda>src. case test_prepare L fs st src of
                          Inl e \<Rightarrow> []
                        | Inr (labels, man) \<Rightarrow>
                            concat (map (test_events L labels man)
                              (evaluated L man (chosen_or_all method (map fst (METHODS L))) 0)))
             (select_manifolds L root st min_points graph_ratio))"
proof -
  let ?ms = "chosen_or_all method (map fst (METHODS L))"
  let ?srcs = "select_manifolds L root st min_points graph_ratio"
  let ?out = "\<lambda>src. fst (test_manifold L fs st ?ms src [])"
  let ?err = "\<lambda>src. snd (test_manifold L fs st ?ms src [])"
  have eq: "test L root fs st method min_points graph_ratio =
      ([] @ concat (map ?out (reached ?err ?srcs)), first_error ?err ?srcs)"
    unfolding test_def Let_def by (rule for_each_writer) (rule test_manifold_writer)
  with assms have none: "first_error ?err ?srcs = None" by simp
  have each: "?out src = (case test_prepare L fs st src of
                          Inl e \<Rightarrow> []
                        | Inr (labels, man) \<Rightarrow>
                            concat (map (test_events L labels man) (evaluated L man ?ms 0)))"
    if "src \<in> set ?srcs" for src
  proof (cases "test_prepare L fs st src")
    case (Inl e)
    then show ?thesis by (simp add: test_manifold_def)
  next
    case (Inr r)
    obtain labels man where r: "r = (labels, man)" by (cases r)
    from none that have "?err src = None" by (simp add: first_error_None_iff)
    with Inr r have "snd (test_sweep L labels man ?ms []) = None"
      by (simp add: test_manifold_def)
    from test_sweep_complete [OF this] show ?thesis
      by (simp add: test_manifold_def Inr r)
  qed
  have "fst (test L root fs st method min_points graph_ratio) = concat (map ?out ?srcs)"
    by (simp add: eq reached_all [OF none])
  also have "map ?out ?srcs = map (\<lambda>src. case test_prepare L fs st src of
                          Inl e \<Rightarrow> []
                        | Inr (labels, man) \<Rightarrow>
                            concat (map (test_events L labels man) (evaluated L man ?ms 0))) ?srcs"
    by (rule map_cong [OF refl]) (rule each)
  finally show ?thesis .
qed

lemma test_complete_prepared:
  assumes "snd (test L root fs st method min_points graph_ratio) = None"
    and "src \<in> set (select_manifolds L root st min_points graph_ratio)"
  shows "\<exists>labels man. test_prepare L fs st src = Inr (labels, man)"
proof -
  let ?ms = "chosen_or_all method (map fst (METHODS L))"
  let ?srcs = "select_manifolds L root st min_points graph_ratio"
  let ?out = "\<lambda>src. fst (test_manifold L fs st ?ms src [])"
  let ?err = "\<lambda>src. snd (test_manifold L fs st ?ms src [])"
  have "test L root fs st method min_points graph_ratio =
      ([] @ concat (map ?out (reached ?err ?srcs)), first_error ?err ?srcs)"
    unfolding test_def Let_def by (rule for_each_writer) (rule test_manifold_writer)
  with assms have "?err src = None" by (simp add: first_error_None_iff)
  then show ?thesis
    by (cases "test_prepare L fs st src") (auto simp: test_manifold_def)
qed





lemma example_test_k_nearest:
  "test example_library ''/opt/anomaly'' Map.empty (State_init (Some ''mnist'') None (Some 1))
     (Some ''k_nearest'') ''*'' ''*'' =
     ([Debug_calling ''k_nearest'', Call ''k_nearest'' 1, Info_score 1 1 2 1 ''k_nearest''], None)"
  by (simp add: test_def select_manifolds_def test_manifold_def test_prepare_def
      chosen_or_all_def State_init_def and_then_def
      test_sweep_def test_step_def skipped_def call_method_def score_line_def
      lookup_def index_int_def example_library_def upto_example)













section \<open>The claims\<close>




text \<open>
  C2. The glob pattern of \<^verbatim>\<open>test\<close> and \<^verbatim>\<open>plot_results\<close> does not depend on the
  data set of the state: the expression reads \<^verbatim>\<open>state.datset\<close>, an attribute that
  does not exist, which is \<^verbatim>\<open>None\<close>. With the data set \<^verbatim>\<open>mnist\<close> chosen and
  nothing else, the pattern is \<^verbatim>\<open>*:*:*:*.pickle\<close> in the build directory, which
  matches the files of every data set; the manifolds selected when the state carries none
  are those of the pattern for no data set. The metric of the state does restrict the
  pattern.
\<close>

theorem glob_pattern_ignores_dataset:
  "glob_pattern root (cli (Some ''mnist'') None) ''*'' ''*'' = BUILD_DIR root @ ''/*:*:*:*.pickle''
   \<and> glob_pattern root (State_init d m man) p g = glob_pattern root (State_init None m man) p g
   \<and> select_manifolds L root (State_init d m None) p g =
       map Path (glob L (glob_pattern root (State_init None m None) p g))
   \<and> glob_pattern root (cli (Some ''mnist'') (Some ''cosine'')) ''*'' ''*'' =
       BUILD_DIR root @ ''/*:cosine:*:*.pickle''"
  using path_join_build [of "''*:*:*:*.pickle''" root]
    path_join_build [of "''*:cosine:*:*.pickle''" root]
  by (simp add: glob_pattern_def select_manifolds_def State_getattr_def State_init_def cli_def
        py_or_def py_of_def manifold_path_def manifold_name_def)

text \<open>
  C3, as amended. For a data set and a metric name, and for \<^verbatim>\<open>min_points\<close> and
  \<^verbatim>\<open>graph_ratio\<close> values, such that none of the four string forms contains
  \<^verbatim>\<open>:\<close> or the path separator and the string form of \<^verbatim>\<open>graph_ratio\<close> does not
  contain \<^verbatim>\<open>.pickle\<close>: \<^verbatim>\<open>_meta_from_path\<close> returns the four string forms from
  the path that \<^verbatim>\<open>_manifold_path\<close> builds, and \<^verbatim>\<open>_dataset_from_path\<close> and
  \<^verbatim>\<open>_metric_from_path\<close> return the data set and the metric.
\<close>

theorem path_roundtrip:
  assumes "CHR '':'' \<notin> set d" "CHR ''/'' \<notin> set d"
    and "CHR '':'' \<notin> set m" "CHR ''/'' \<notin> set m"
    and "CHR '':'' \<notin> set (str_py p)" "CHR ''/'' \<notin> set (str_py p)"
    and "CHR '':'' \<notin> set (str_py g)" "CHR ''/'' \<notin> set (str_py g)"
    and "\<not> contains (str_py g) ''.pickle''"
  shows "meta_from_path (manifold_path root (PyStr d) (PyStr m) p g) =
           Inr \<lparr>meta_dataset = d, meta_metric = m, meta_min_points = str_py p,
                meta_graph_ratio = str_py g\<rparr>
       \<and> dataset_from_path (manifold_path root (PyStr d) (PyStr m) p g) = Inr d
       \<and> metric_from_path (manifold_path root (PyStr d) (PyStr m) p g) = Inr m"
proof -
  let ?n = "manifold_name (PyStr d) (PyStr m) p g"
  have nosep: "CHR ''/'' \<notin> set ?n"
    using assms by (intro manifold_name_no_sep) simp_all
  have path: "manifold_path root (PyStr d) (PyStr m) p g = BUILD_DIR root @ ''/'' @ ?n"
    unfolding manifold_path_def by (rule path_join_build) (rule not_prefix_sep [OF nosep])
  have base: "basename (manifold_path root (PyStr d) (PyStr m) p g) = ?n"
    using basename_append [OF nosep] by (simp add: path)
  have pieces: "split_py ?n '':'' = [d, m, str_py p, str_py g @ ''.pickle'']"
    using split_manifold_name [of "PyStr d" "PyStr m" p g] assms by simp
  show ?thesis
    by (simp add: meta_from_path_def dataset_from_path_def metric_from_path_def base pieces
          index_py_def and_then_def split_pickle [OF assms(9)])
qed

theorem path_roundtrip_witness:
  "meta_from_path
     (manifold_path ''/opt/anomaly'' (PyStr ''mnist'') (PyStr ''euclidean'') (PyInt 3) (PyInt 100)) =
     Inr \<lparr>meta_dataset = ''mnist'', meta_metric = ''euclidean'', meta_min_points = ''3'',
          meta_graph_ratio = ''100''\<rparr>
   \<and> dataset_from_path
       (manifold_path ''/opt/anomaly'' (PyStr ''mnist'') (PyStr ''euclidean'') (PyInt 3) (PyInt 100)) =
     Inr ''mnist''
   \<and> metric_from_path
       (manifold_path ''/opt/anomaly'' (PyStr ''mnist'') (PyStr ''euclidean'') (PyInt 3) (PyInt 100)) =
     Inr ''euclidean''"
proof -
  have s3: "str_int 3 = ''3''" and s100: "str_int 100 = ''100''"
    by (simp_all add: str_int_def str_nat_small str_nat_big digit_char_def)
  show ?thesis
    using path_roundtrip [where d = "''mnist''" and m = "''euclidean''" and p = "PyInt 3"
        and g = "PyInt 100" and root = "''/opt/anomaly''"]
    by (simp add: s3 s100)
qed

text \<open>
  C3 as stated fails: a \<^verbatim>\<open>graph_ratio\<close> whose string form is \<^verbatim>\<open>1:2\<close> does not
  contain \<^verbatim>\<open>.pickle\<close>, and \<^verbatim>\<open>_meta_from_path\<close> returns \<^verbatim>\<open>1\<close> for it.
\<close>

theorem path_roundtrip_counterexample:
  "meta_from_path
     (manifold_path ''/opt/anomaly'' (PyStr ''mnist'') (PyStr ''euclidean'') (PyInt 3) (PyStr ''1:2'')) =
     Inr \<lparr>meta_dataset = ''mnist'', meta_metric = ''euclidean'', meta_min_points = ''3'',
          meta_graph_ratio = ''1''\<rparr>
   \<and> \<not> contains (str_py (PyStr ''1:2'')) ''.pickle''
   \<and> str_py (PyStr ''1:2'') \<noteq> ''1''"
proof -
  have "manifold_path ''/opt/anomaly'' (PyStr ''mnist'') (PyStr ''euclidean'') (PyInt 3)
          (PyStr ''1:2'') = BUILD_DIR ''/opt/anomaly'' @ ''/'' @ ''mnist:euclidean:3:1:2.pickle''"
    by (simp add: manifold_path_def manifold_name_def path_join_build str_int_def
          str_nat_small digit_char_def)
  then have "basename (manifold_path ''/opt/anomaly'' (PyStr ''mnist'') (PyStr ''euclidean'')
          (PyInt 3) (PyStr ''1:2'')) = ''mnist:euclidean:3:1:2.pickle''"
    by (simp add: basename_append)
  then show ?thesis
    by (simp add: meta_from_path_def split_py_def index_py_def and_then_def)
qed

text \<open>
  C4. \<^verbatim>\<open>build\<close> runs the same body for every data set and metric it processes,
  in the order of the loops. For a metric of \<^verbatim>\<open>METRICS\<close>, the body looks up the
  file at the path of the naming convention. If it exists, the manifold is loaded from it
  and its tree and graphs are rebuilt; otherwise the manifold is built from scratch. In
  both cases the resulting manifold is dumped to that same path and stored in the state.
\<close>

theorem build_uses_cache:
  assumes "lookup METRICS metric_name = Inr distance"
  shows "build_body L root max_depth graph_ratio dataset_name data metric_name bs =
    (let k = effective_min_points (rows L data) (min_points_var bs);
         filepath = manifold_path root (PyStr dataset_name) (PyStr metric_name) (PyInt k)
                      (PyInt graph_ratio);
         result = (case files bs filepath of
                     Some pickled \<Rightarrow> build_graphs L (build_tree L (load L pickled data) max_depth k)
                   | None \<Rightarrow> Manifold_build L (Manifold L data distance) max_depth k)
     in (bs\<lparr>min_points_var := k,
            files := (files bs)(filepath \<mapsto> dump L result),
            state := (state bs)\<lparr>manifold := Some result\<rparr>,
            build_trace := build_trace bs @ Info_build dataset_name metric_name #
              (case files bs filepath of
                 Some pickled \<Rightarrow> [Loading filepath, Call_build_tree max_depth k, Call_build_graphs]
               | None \<Rightarrow> [Call_build max_depth k]) @ [Dumping filepath]\<rparr>, None))
   \<and> build L root fs st max_depth min_points graph_ratio =
     for_each (List.product (chosen_or_all (dataset st) (DATASETS L))
                 (chosen_or_all (metric st) (map fst METRICS)))
       (\<lambda>(dataset_name, metric_name).
          build_body L root max_depth graph_ratio dataset_name
            (fst (read L dataset_name (Some (NORMALIZE, SUB_SAMPLE)))) metric_name)
       \<lparr>min_points_var = min_points, files = fs, state = st, build_trace = []\<rparr>"
  by (intro conjI build_body_ok [OF assms] build_flat)

theorem build_uses_cache_witness:
  "lookup METRICS ''euclidean'' = Inr ''euclidean''
   \<and> build_body example_library ''/opt/anomaly'' 100 100 ''mnist'' 5000 ''euclidean''
       \<lparr>min_points_var = 7,
        files = [''/opt/anomaly/build/mnist:euclidean:3:100.pickle'' \<mapsto> 5],
        state = State_init (Some ''mnist'') (Some ''euclidean'') None,
        build_trace = []\<rparr> =
     (\<lparr>min_points_var = 3,
       files = [''/opt/anomaly/build/mnist:euclidean:3:100.pickle'' \<mapsto> 5],
       state = State_init (Some ''mnist'') (Some ''euclidean'') (Some 5),
       build_trace = [Info_build ''mnist'' ''euclidean'',
                      Loading ''/opt/anomaly/build/mnist:euclidean:3:100.pickle'',
                      Call_build_tree 100 3, Call_build_graphs,
                      Dumping ''/opt/anomaly/build/mnist:euclidean:3:100.pickle'']\<rparr>, None)"
proof -
  have m: "lookup METRICS ''euclidean'' = Inr ''euclidean''"
    by (simp add: lookup_def METRICS_def)
  have k: "effective_min_points (rows example_library 5000) 7 = 3"
    by (simp add: effective_min_points_def example_library_def)
  from build_uses_cache [OF m, of example_library "''/opt/anomaly''" 100 100 "''mnist''" 5000
      "\<lparr>min_points_var = 7,
        files = [''/opt/anomaly/build/mnist:euclidean:3:100.pickle'' \<mapsto> 5],
        state = State_init (Some ''mnist'') (Some ''euclidean'') None,
        build_trace = []\<rparr>"]
  have "build_body example_library ''/opt/anomaly'' 100 100 ''mnist'' 5000 ''euclidean''
       \<lparr>min_points_var = 7,
        files = [''/opt/anomaly/build/mnist:euclidean:3:100.pickle'' \<mapsto> 5],
        state = State_init (Some ''mnist'') (Some ''euclidean'') None,
        build_trace = []\<rparr> =
     (\<lparr>min_points_var = 3,
       files = [''/opt/anomaly/build/mnist:euclidean:3:100.pickle'' \<mapsto> 5],
       state = State_init (Some ''mnist'') (Some ''euclidean'') (Some 5),
       build_trace = [Info_build ''mnist'' ''euclidean'',
                      Loading ''/opt/anomaly/build/mnist:euclidean:3:100.pickle'',
                      Call_build_tree 100 3, Call_build_graphs,
                      Dumping ''/opt/anomaly/build/mnist:euclidean:3:100.pickle'']\<rparr>, None)"
    by (simp add: k example_path Let_def State_init_def)
      (simp add: example_library_def)
  with m show ?thesis by simp
qed

text \<open>
  C5, as amended. For a manifold that \<^verbatim>\<open>test\<close> processes, when no selected method
  raises: \<^verbatim>\<open>test\<close> invokes each selected method other than
  \<^verbatim>\<open>n_points_in_ball\<close> and \<^verbatim>\<open>k_nearest\<close> on the graph at every depth from 0 to
  \<^verbatim>\<open>manifold.depth\<close> inclusive, and these two on the graph at depth
  \<^verbatim>\<open>manifold.depth\<close> only, and it scores the anomaly values of every invocation
  against the labels with \<^verbatim>\<open>roc_auc_score\<close>: the log line holds the score, or the
  exception that the scoring raised is logged. A run of \<^verbatim>\<open>test\<close> that no exception
  ends logs these events for every manifold it selected, one manifold after the other.
\<close>

theorem test_scores_every_evaluated_depth:
  assumes "\<forall>md\<in>set (evaluated L man methods 0). method_error L man md = None"
  shows "test_sweep L labels man methods tr =
           (tr @ concat (map (test_events L labels man) (evaluated L man methods 0)), None)
       \<and> (\<forall>m d. (m, d) \<in> set (evaluated L man methods 0) \<longleftrightarrow>
             m \<in> set methods \<and> 0 \<le> d \<and> d \<le> depth L man \<and>
             (m = ''n_points_in_ball'' \<or> m = ''k_nearest'' \<longrightarrow> d = depth L man))
       \<and> (\<forall>m d. (m, d) \<in> set (evaluated L man methods 0) \<longrightarrow>
             (\<exists>a g. call_method L man m d = Inr a \<and> index_int (graphs L man) d = Inr g \<and>
                test_events L labels man (m, d) =
                  [Debug_calling m, Call m d,
                   case roc_auc_score L labels a of
                     Inr score \<Rightarrow> Info_score d (n_subgraphs L g) (n_clusters L g) score m
                   | Inl e \<Rightarrow> Exception e]))
       \<and> (snd (test L root fs st method min_points graph_ratio) = None \<longrightarrow>
             fst (test L root fs st method min_points graph_ratio) =
               concat (map (\<lambda>src. case test_prepare L fs st src of
                              Inl e \<Rightarrow> []
                            | Inr (labels, man) \<Rightarrow>
                                concat (map (test_events L labels man)
                                  (evaluated L man (chosen_or_all method (map fst (METHODS L))) 0)))
                 (select_manifolds L root st min_points graph_ratio)))"
proof (intro conjI allI impI)
  assume "snd (test L root fs st method min_points graph_ratio) = None"
  then show "fst (test L root fs st method min_points graph_ratio) =
               concat (map (\<lambda>src. case test_prepare L fs st src of
                              Inl e \<Rightarrow> []
                            | Inr (labels, man) \<Rightarrow>
                                concat (map (test_events L labels man)
                                  (evaluated L man (chosen_or_all method (map fst (METHODS L))) 0)))
                 (select_manifolds L root st min_points graph_ratio))"
    by (rule test_complete)
next
  from assms have none: "snd (test_sweep L labels man methods tr) = None"
    by (simp add: test_sweep_error)
  from test_sweep_complete [OF none] none
  show "test_sweep L labels man methods tr =
           (tr @ concat (map (test_events L labels man) (evaluated L man methods 0)), None)"
    by (simp add: prod_eq_iff)
next
  fix m d
  show "(m, d) \<in> set (evaluated L man methods 0) \<longleftrightarrow>
             m \<in> set methods \<and> 0 \<le> d \<and> d \<le> depth L man \<and>
             (m = ''n_points_in_ball'' \<or> m = ''k_nearest'' \<longrightarrow> d = depth L man)"
    by (rule evaluated_iff)
next
  fix m d assume "(m, d) \<in> set (evaluated L man methods 0)"
  with assms have "method_error L man (m, d) = None" by blast
  then show "\<exists>a g. call_method L man m d = Inr a \<and> index_int (graphs L man) d = Inr g \<and>
                test_events L labels man (m, d) =
                  [Debug_calling m, Call m d,
                   case roc_auc_score L labels a of
                     Inr score \<Rightarrow> Info_score d (n_subgraphs L g) (n_clusters L g) score m
                   | Inl e \<Rightarrow> Exception e]"
    by (rule method_ok_graph)
qed

theorem test_scores_every_evaluated_depth_witness:
  "test_sweep example_library () 1 [''cluster_cardinality'', ''k_nearest''] [] =
     (concat (map (test_events example_library () 1)
        [(''cluster_cardinality'', 0), (''cluster_cardinality'', 1), (''k_nearest'', 1)]), None)
   \<and> method_error example_library 1 (''cluster_cardinality'', 0) = None
   \<and> method_error example_library 1 (''cluster_cardinality'', 1) = None
   \<and> method_error example_library 1 (''k_nearest'', 1) = None"
proof -
  have ok: "\<forall>md\<in>set (evaluated example_library 1 [''cluster_cardinality'', ''k_nearest''] 0).
      method_error example_library 1 md = None"
    unfolding example_evaluated
    by (simp add: method_error_def call_method_def lookup_def index_int_def
        and_then_def example_library_def)
  from test_scores_every_evaluated_depth [OF ok, of "()" "[]"]
  have "test_sweep example_library () 1 [''cluster_cardinality'', ''k_nearest''] [] =
     (concat (map (test_events example_library () 1)
        (evaluated example_library 1 [''cluster_cardinality'', ''k_nearest''] 0)), None)"
    by simp
  with ok show ?thesis unfolding example_evaluated by simp
qed

text \<open>
  C5 as stated fails: with a manifold of depth 1, the selected method
  \<^verbatim>\<open>k_nearest\<close> is invoked on the graph at depth 1 only, not at depth 0.
\<close>

theorem test_scores_every_evaluated_depth_counterexample:
  "test_sweep example_library () 1 [''k_nearest''] [] =
     ([Debug_calling ''k_nearest'', Call ''k_nearest'' 1, Info_score 1 1 2 1 ''k_nearest''], None)
   \<and> depth example_library 1 = 1
   \<and> (''k_nearest'', 0) \<notin> set (calls (fst (test_sweep example_library () 1 [''k_nearest''] [])))
   \<and> test example_library ''/opt/anomaly'' Map.empty (State_init (Some ''mnist'') None (Some 1))
       (Some ''k_nearest'') ''*'' ''*'' =
     ([Debug_calling ''k_nearest'', Call ''k_nearest'' 1, Info_score 1 1 2 1 ''k_nearest''], None)"
proof -
  have "test_sweep example_library () 1 [''k_nearest''] [] =
     ([Debug_calling ''k_nearest'', Call ''k_nearest'' 1, Info_score 1 1 2 1 ''k_nearest''], None)"
    by (simp add: test_sweep_def test_step_def skipped_def call_method_def score_line_def
        lookup_def index_int_def and_then_def example_library_def upto_example)
  moreover have "depth example_library 1 = 1"
    by (simp add: example_library_def)
  ultimately show ?thesis
    using example_test_k_nearest by (simp add: calls_def map_filter_def)
qed

text \<open>
  C6. \<^verbatim>\<open>plot_data\<close> and \<^verbatim>\<open>animate\<close> raise NotImplementedError on every
  invocation, and nothing has changed when they do.
\<close>

theorem stubs_always_fail:
  "plot_data w = (w, Some NotImplementedError)
   \<and> animate dataset_name metric_name w = (w, Some NotImplementedError)"
  by (simp add: plot_data_def animate_def)

text \<open>
  C7, as amended. For a data set and a metric name, and for \<^verbatim>\<open>min_points\<close> and
  \<^verbatim>\<open>graph_ratio\<close> values, whose string forms contain no path separator, the manifold
  cache path is the file \<^verbatim>\<open><dataset>:<metric>:<min_points>:<graph_ratio>.pickle\<close>
  directly under the build directory, and the SVM model cache path is
  \<^verbatim>\<open>svm/<dataset>:<metric>\<close> under the build directory.
\<close>

theorem cache_path_convention:
  assumes "CHR ''/'' \<notin> set d" "CHR ''/'' \<notin> set m"
    and "CHR ''/'' \<notin> set (str_py p)" "CHR ''/'' \<notin> set (str_py g)"
  shows "manifold_path root (PyStr d) (PyStr m) p g =
           BUILD_DIR root @ ''/'' @ d @ '':'' @ m @ '':'' @ str_py p @ '':'' @ str_py g @ ''.pickle''
       \<and> dirname (manifold_path root (PyStr d) (PyStr m) p g) = BUILD_DIR root
       \<and> basename (manifold_path root (PyStr d) (PyStr m) p g) =
           d @ '':'' @ m @ '':'' @ str_py p @ '':'' @ str_py g @ ''.pickle''
       \<and> svm_path root d m = BUILD_DIR root @ ''/svm/'' @ d @ '':'' @ m"
proof -
  let ?n = "manifold_name (PyStr d) (PyStr m) p g"
  have nosep: "CHR ''/'' \<notin> set ?n"
    using assms by (intro manifold_name_no_sep) simp_all
  have path: "manifold_path root (PyStr d) (PyStr m) p g = BUILD_DIR root @ CHR ''/'' # ?n"
    using path_join_build [OF not_prefix_sep [OF nosep], of root] by (simp add: manifold_path_def)
  have name: "?n = d @ '':'' @ m @ '':'' @ str_py p @ '':'' @ str_py g @ ''.pickle''"
    by (simp add: manifold_name_eq)
  have "dirname (BUILD_DIR root @ CHR ''/'' # ?n) = BUILD_DIR root"
    by (rule dirname_append [OF nosep])
  moreover have "basename (BUILD_DIR root @ CHR ''/'' # ?n) = ?n"
    by (rule basename_append [OF nosep])
  moreover have "svm_path root d m = BUILD_DIR root @ ''/svm/'' @ d @ '':'' @ m"
    by (rule svm_path_eq) (rule not_prefix_sep [OF assms(1)])
  ultimately show ?thesis
    unfolding path by (simp add: name)
qed

theorem cache_path_convention_witness:
  "manifold_path ''/opt/anomaly'' (PyStr ''mnist'') (PyStr ''euclidean'') (PyInt 3) (PyInt 100) =
     ''/opt/anomaly/build/mnist:euclidean:3:100.pickle''
   \<and> dirname
       (manifold_path ''/opt/anomaly'' (PyStr ''mnist'') (PyStr ''euclidean'') (PyInt 3) (PyInt 100)) =
     ''/opt/anomaly/build''
   \<and> svm_path ''/opt/anomaly'' ''mnist'' ''euclidean'' = ''/opt/anomaly/build/svm/mnist:euclidean''"
proof -
  have s3: "str_int 3 = ''3''" and s100: "str_int 100 = ''100''"
    by (simp_all add: str_int_def str_nat_small str_nat_big digit_char_def)
  show ?thesis
    using cache_path_convention [where d = "''mnist''" and m = "''euclidean''" and p = "PyInt 3"
        and g = "PyInt 100" and root = "''/opt/anomaly''"]
    by (auto simp add: s3 s100 BUILD_DIR_def)
qed

text \<open>
  C7 as stated fails: with a \<^verbatim>\<open>graph_ratio\<close> of \<^verbatim>\<open>a/b\<close>, which the option
  \<^verbatim>\<open>--graph-ratio\<close> of \<^verbatim>\<open>test\<close> accepts, the path names a file
  \<^verbatim>\<open>b.pickle\<close> in a directory below the build directory.
\<close>

theorem cache_path_convention_counterexample:
  "basename
     (manifold_path ''/opt/anomaly'' (PyStr ''mnist'') (PyStr ''euclidean'') (PyStr ''*'')
        (PyStr ''a/b'')) = ''b.pickle''
   \<and> dirname
       (manifold_path ''/opt/anomaly'' (PyStr ''mnist'') (PyStr ''euclidean'') (PyStr ''*'')
          (PyStr ''a/b'')) = ''/opt/anomaly/build/mnist:euclidean:*:a''
   \<and> BUILD_DIR ''/opt/anomaly'' = ''/opt/anomaly/build''"
proof -
  have "manifold_path ''/opt/anomaly'' (PyStr ''mnist'') (PyStr ''euclidean'') (PyStr ''*'')
          (PyStr ''a/b'') = ''/opt/anomaly/build/mnist:euclidean:*:a/b.pickle''"
    using path_join_build [of "''mnist:euclidean:*:a/b.pickle''" "''/opt/anomaly''"]
    by (simp add: manifold_path_def manifold_name_def BUILD_DIR_def)
  then show ?thesis
    by (simp add: basename_def dirname_def rstrip_sep_def BUILD_DIR_def)
qed










end
